theory Spec2Isabelle
  imports Main "HOL-Library.Sublist"
begin

section \<open>Server-sent events over one HTTP response: the package \<open>sse\<close>\<close>

text \<open>
  The package upgrades an HTTP response to an event stream. \<open>Upgrade\<close> checks that the
  response writer can flush, sets the response headers, builds a \<open>Connection\<close> and starts
  one goroutine, the writer loop, which is the only code that writes to the response.
  Producers hand messages to that loop over an unbuffered channel.

  The repository holds two versions of the package: \<open>src/sse.go\<close>, and an earlier one in
  \<open>src/unnamed/part_000\<close> without the error channel. Definitions without a suffix embed
  \<open>src/sse.go\<close>; those ending in \<open>_part_000\<close> embed the other file.
\<close>

subsection \<open>Data\<close>

text \<open>
  Go strings and byte slices are byte sequences (\<open>char\<close> is a byte). An \<open>error\<close> value
  is represented by the text its \<open>Error()\<close> method returns; Go's \<open>nil\<close> error is
  \<open>None\<close> of \<open>error option\<close>.
\<close>

type_synonym bytes = string

datatype error = errors_New string

fun Error :: "error \<Rightarrow> string" where
  "Error (errors_New text) = text"

text \<open>The struct \<open>Message\<close>. The field \<open>id\<close> is written \<open>id_m\<close> here.\<close>

record Message =
  id_m :: string
  event :: string
  data :: bytes

text \<open>
  The response writer, as far as the package uses it: whether its dynamic type implements
  \<open>http.Flusher\<close>, its header map, and the calls it has received so far, in order. A
  \<open>Write\<close> can fail; \<open>write_err\<close> gives the error that \<open>Write\<close> returns for a
  payload after a given history of calls (\<open>None\<close> when it succeeds). The payload of a
  failed \<open>Write\<close> is recorded like any other: \<open>calls\<close> is what the package asked the
  transport to do.
\<close>

datatype call = WriteCall bytes | FlushCall

record ResponseWriter =
  flusher :: bool
  header :: "string \<rightharpoonup> string list"
  calls :: "call list"
  write_err :: "call list \<Rightarrow> bytes \<Rightarrow> error option"

text \<open>The bytes handed to \<open>Write\<close>, in order.\<close>

fun written :: "call list \<Rightarrow> bytes" where
  "written [] = []"
| "written (WriteCall p # cs) = p @ written cs"
| "written (FlushCall # cs) = written cs"

text \<open>
  The struct \<open>Connection\<close>. A channel field holds the state of its channel. For
  \<open>messages\<close> and \<open>shutdown\<close>, which are unbuffered, that is the values that blocked
  senders are offering and that the receiver has not taken yet, oldest first; for \<open>errors\<close>
  it is the values that have been delivered to a receiver. The \<open>Connection\<close> of
  \<open>part_000\<close> has no field \<open>errors\<close>; its functions never touch it.
\<close>

record Connection =
  errors :: "error list"
  messages :: "Message list"
  shutdown :: "bool list"
  isOpen :: bool

datatype loop_state = RUNNING | STOPPED

type_synonym addr = nat

text \<open>
  Everything a successful \<open>Upgrade\<close> creates and everything reachable from it: the response
  writer that the goroutine's closure captured, the struct behind the returned
  \<open>*Connection\<close> (shared by the producers and the goroutine), the goroutine's control state,
  the \<open>Message\<close> structs that builders point to (\<open>heap\<close>, with \<open>fresh\<close> the next unused
  address), the number of consumers blocked in a receive on the error channel, and the
  lines given to \<open>log.Println\<close>.
\<close>

record system =
  writer :: ResponseWriter
  sseConnection :: Connection
  goroutine :: loop_state
  heap :: "addr \<Rightarrow> Message"
  fresh :: addr
  errorReceivers :: nat
  logged :: "string list"

text \<open>
  The struct \<open>MessageBuilder\<close>: a pointer to a \<open>Message\<close>. Its second field,
  \<open>connection\<close>, points to the \<open>Connection\<close> of the system the builder's methods are
  applied to.
\<close>

record MessageBuilder =
  message :: addr

subsection \<open>The response writer\<close>

text \<open>\<open>writer.Header().Set(key, value)\<close>, for a key in canonical form.\<close>

definition Header_Set :: "string \<Rightarrow> string \<Rightarrow> ResponseWriter \<Rightarrow> ResponseWriter" where
  "Header_Set key val w = w\<lparr>header := (header w)(key \<mapsto> [val])\<rparr>"

definition Flush :: "ResponseWriter \<Rightarrow> ResponseWriter" where
  "Flush w = w\<lparr>calls := calls w @ [FlushCall]\<rparr>"

text \<open>
  \<open>fmt.Fprintf(writer, format, arg)\<close> formats into a buffer and passes the buffer to
  \<open>writer.Write\<close> in one call; it returns the error of that call. The verb \<open>%s\<close>
  copies a string or a byte slice as it is. \<open>Fprintf\<close> takes the formatted bytes.
\<close>

definition Fprintf :: "bytes \<Rightarrow> ResponseWriter \<Rightarrow> error option \<times> ResponseWriter" where
  "Fprintf p w = (write_err w (calls w) p, w\<lparr>calls := calls w @ [WriteCall p]\<rparr>)"

subsection \<open>Producers: \<open>Connection\<close> and \<open>MessageBuilder\<close>\<close>

definition BuildMessage :: "system \<Rightarrow> MessageBuilder \<times> system" where
  "BuildMessage s =
     (\<lparr>message = fresh s\<rparr>,
      s\<lparr>heap := (heap s)(fresh s := \<lparr>id_m = [], event = [], data = []\<rparr>),
        fresh := Suc (fresh s)\<rparr>)"

definition IsOpen :: "system \<Rightarrow> bool" where
  "IsOpen s = isOpen (sseConnection s)"

text \<open>
  \<open>connection.shutdown <- true\<close>. The call returns when the writer loop takes the value.
\<close>

definition Close :: "system \<Rightarrow> system" where
  "Close s = s\<lparr>sseConnection :=
     (sseConnection s)\<lparr>shutdown := shutdown (sseConnection s) @ [True]\<rparr>\<rparr>"

text \<open>
  \<open>send\<close> takes the pointer to the message. With the connection open it offers \<open>*message\<close>,
  the struct read from the heap at that moment, on the message channel; the returned
  \<open>nil\<close> is what the caller gets when the writer loop takes the value.
\<close>

definition send :: "addr \<Rightarrow> system \<Rightarrow> error option \<times> system" where
  "send ptr s =
     (if \<not> isOpen (sseConnection s) then (Some (errors_New ''connection is closed''), s)
      else (None, s\<lparr>sseConnection :=
              (sseConnection s)\<lparr>messages := messages (sseConnection s) @ [heap s ptr]\<rparr>\<rparr>))"

definition WithId :: "string \<Rightarrow> MessageBuilder \<Rightarrow> system \<Rightarrow> MessageBuilder \<times> system" where
  "WithId ident messageBuilder s =
     (messageBuilder,
      s\<lparr>heap := (heap s)(message messageBuilder :=
                   (heap s (message messageBuilder))\<lparr>id_m := ident\<rparr>)\<rparr>)"

definition WithEvent :: "string \<Rightarrow> MessageBuilder \<Rightarrow> system \<Rightarrow> MessageBuilder \<times> system" where
  "WithEvent ev messageBuilder s =
     (messageBuilder,
      s\<lparr>heap := (heap s)(message messageBuilder :=
                   (heap s (message messageBuilder))\<lparr>event := ev\<rparr>)\<rparr>)"

definition MessageBuilder_SendBytes ::
    "bytes \<Rightarrow> MessageBuilder \<Rightarrow> system \<Rightarrow> error option \<times> system" where
  "MessageBuilder_SendBytes d messageBuilder s =
     send (message messageBuilder)
       (s\<lparr>heap := (heap s)(message messageBuilder :=
                    (heap s (message messageBuilder))\<lparr>data := d\<rparr>)\<rparr>)"

text \<open>\<open>[]byte(data)\<close> is the bytes of the string.\<close>

definition MessageBuilder_SendString ::
    "string \<Rightarrow> MessageBuilder \<Rightarrow> system \<Rightarrow> error option \<times> system" where
  "MessageBuilder_SendString d messageBuilder s =
     send (message messageBuilder)
       (s\<lparr>heap := (heap s)(message messageBuilder :=
                    (heap s (message messageBuilder))\<lparr>data := d\<rparr>)\<rparr>)"

text \<open>
  \<open>json.Marshal\<close> belongs to the standard library; it is the parameter \<open>Marshal\<close>, which
  returns the encoding or an error.
\<close>

definition MessageBuilder_SendJson ::
    "('v \<Rightarrow> error + bytes) \<Rightarrow> 'v \<Rightarrow> MessageBuilder \<Rightarrow> system \<Rightarrow> error option \<times> system" where
  "MessageBuilder_SendJson Marshal v messageBuilder s =
     (case Marshal v of
        Inl err \<Rightarrow> (Some err, s)
      | Inr d \<Rightarrow>
          send (message messageBuilder)
            (s\<lparr>heap := (heap s)(message messageBuilder :=
                         (heap s (message messageBuilder))\<lparr>data := d\<rparr>)\<rparr>))"

definition Connection_SendBytes :: "bytes \<Rightarrow> system \<Rightarrow> error option \<times> system" where
  "Connection_SendBytes d s =
     (case BuildMessage s of (messageBuilder, s') \<Rightarrow> MessageBuilder_SendBytes d messageBuilder s')"

definition Connection_SendString :: "string \<Rightarrow> system \<Rightarrow> error option \<times> system" where
  "Connection_SendString d s =
     (case BuildMessage s of (messageBuilder, s') \<Rightarrow> MessageBuilder_SendString d messageBuilder s')"

definition Connection_SendJson ::
    "('v \<Rightarrow> error + bytes) \<Rightarrow> 'v \<Rightarrow> system \<Rightarrow> error option \<times> system" where
  "Connection_SendJson Marshal v s =
     (case BuildMessage s of (messageBuilder, s') \<Rightarrow>
        MessageBuilder_SendJson Marshal v messageBuilder s')"

subsection \<open>The writer loop\<close>

text \<open>
  \<open>handleError\<close>: a non-nil error goes to the error channel if a receiver is waiting
  there, and to the log otherwise.
\<close>

definition handleError :: "error option \<Rightarrow> system \<Rightarrow> system" where
  "handleError err s =
     (case err of
        None \<Rightarrow> s
      | Some e \<Rightarrow>
          (if 0 < errorReceivers s
           then s\<lparr>sseConnection := (sseConnection s)\<lparr>errors := errors (sseConnection s) @ [e]\<rparr>,
                  errorReceivers := errorReceivers s - 1\<rparr>
           else s\<lparr>logged := logged s @ [''sse write error: '' @ Error e]\<rparr>))"

text \<open>One \<open>Fprintf\<close> to the system's writer followed by \<open>handleError\<close> of its result.\<close>

definition Fprintf_handleError :: "bytes \<Rightarrow> system \<Rightarrow> system" where
  "Fprintf_handleError p s =
     (case Fprintf p (writer s) of (err, w) \<Rightarrow> handleError err (s\<lparr>writer := w\<rparr>))"

text \<open>The body of \<open>case message := <-messageChannel\<close> in \<open>src/sse.go\<close>.\<close>

definition write_message :: "Message \<Rightarrow> system \<Rightarrow> system" where
  "write_message msg s =
     (let s1 = (if length (id_m msg) > 0
                then Fprintf_handleError (''id: '' @ id_m msg @ ''\<newline>'') s else s);
          s2 = (if length (event msg) > 0
                then Fprintf_handleError (''event: '' @ event msg @ ''\<newline>'') s1 else s1);
          s3 = Fprintf_handleError (''data: '' @ data msg @ ''\<newline>\<newline>'') s2
      in s3\<lparr>writer := Flush (writer s3)\<rparr>)"

text \<open>
  The same case in \<open>src/unnamed/part_000\<close>, where the results of \<open>Fprintf\<close> are
  dropped.
\<close>

definition write_message_part_000 :: "Message \<Rightarrow> system \<Rightarrow> system" where
  "write_message_part_000 msg s =
     (let w1 = (if length (id_m msg) > 0
                then snd (Fprintf (''id: '' @ id_m msg @ ''\<newline>'') (writer s)) else writer s);
          w2 = (if length (event msg) > 0
                then snd (Fprintf (''event: '' @ event msg @ ''\<newline>'') w1) else w1);
          w3 = snd (Fprintf (''data: '' @ data msg @ ''\<newline>\<newline>'') w2)
      in s\<lparr>writer := Flush w3\<rparr>)"

text \<open>
  The goroutine is \<open>for { select { ... } }\<close>. Which case a \<open>select\<close> takes depends on
  the producers and on the client, so the loop is a function of the schedule: the case
  that each successive \<open>select\<close> takes. A receive from a channel on which no sender is
  waiting is not ready and cannot be taken; such an entry is passed over. At the end of
  the schedule the goroutine is blocked in \<open>select\<close>. On \<open>ctx_Done\<close> the function
  returns and the rest of the schedule is never looked at.
\<close>

datatype select_case = recv_message | recv_shutdown | ctx_Done

fun writer_loop :: "select_case list \<Rightarrow> system \<Rightarrow> system" where
  "writer_loop [] s = s"
| "writer_loop (recv_message # cs) s =
     (case messages (sseConnection s) of
        [] \<Rightarrow> writer_loop cs s
      | msg # waiting \<Rightarrow>
          writer_loop cs
            (write_message msg (s\<lparr>sseConnection := (sseConnection s)\<lparr>messages := waiting\<rparr>\<rparr>)))"
| "writer_loop (recv_shutdown # cs) s =
     (case shutdown (sseConnection s) of
        [] \<Rightarrow> writer_loop cs s
      | b # waiting \<Rightarrow>
          writer_loop cs (s\<lparr>sseConnection := (sseConnection s)\<lparr>shutdown := waiting\<rparr>\<rparr>))"
| "writer_loop (ctx_Done # cs) s =
     s\<lparr>sseConnection := (sseConnection s)\<lparr>isOpen := False\<rparr>, goroutine := STOPPED\<rparr>"

fun writer_loop_part_000 :: "select_case list \<Rightarrow> system \<Rightarrow> system" where
  "writer_loop_part_000 [] s = s"
| "writer_loop_part_000 (recv_message # cs) s =
     (case messages (sseConnection s) of
        [] \<Rightarrow> writer_loop_part_000 cs s
      | msg # waiting \<Rightarrow>
          writer_loop_part_000 cs
            (write_message_part_000 msg
               (s\<lparr>sseConnection := (sseConnection s)\<lparr>messages := waiting\<rparr>\<rparr>)))"
| "writer_loop_part_000 (recv_shutdown # cs) s =
     (case shutdown (sseConnection s) of
        [] \<Rightarrow> writer_loop_part_000 cs s
      | b # waiting \<Rightarrow>
          writer_loop_part_000 cs
            (s\<lparr>sseConnection := (sseConnection s)\<lparr>shutdown := waiting\<rparr>\<rparr>))"
| "writer_loop_part_000 (ctx_Done # cs) s =
     s\<lparr>sseConnection := (sseConnection s)\<lparr>isOpen := False\<rparr>, goroutine := STOPPED\<rparr>"

subsection \<open>\<open>Upgrade\<close>\<close>

text \<open>
  \<open>Upgrade\<close> returns the pair of Go, \<open>(*Connection, error)\<close>, and the response writer as
  the call leaves it. A non-nil \<open>*Connection\<close> is the system built around it: the
  channels, the struct and the goroutine exist only there. No consumer can be waiting on
  the error channel yet and no builder exists. The request gives the goroutine its
  \<open>Done\<close> channel, which is the case \<open>ctx_Done\<close> of the schedule.
\<close>

definition empty_heap :: "addr \<Rightarrow> Message" where
  "empty_heap = (\<lambda>a. \<lparr>id_m = [], event = [], data = []\<rparr>)"

definition Upgrade :: "ResponseWriter \<Rightarrow> system option \<times> error option \<times> ResponseWriter" where
  "Upgrade w =
     (if \<not> flusher w then (None, Some (errors_New ''streaming not supported''), w)
      else
        let conn = \<lparr>errors = [], messages = [], shutdown = [], isOpen = True\<rparr>;
            w1 = Header_Set ''Content-Type'' ''text/event-stream'' w;
            w2 = Header_Set ''Cache-Control'' ''no-cache'' w1;
            w3 = Header_Set ''Connection'' ''keep-alive'' w2;
            w4 = Flush w3
        in (Some \<lparr>writer = w4, sseConnection = conn, goroutine = RUNNING,
                  heap = empty_heap, fresh = 0, errorReceivers = 0, logged = []\<rparr>,
            None, w4))"

definition Upgrade_part_000 ::
    "ResponseWriter \<Rightarrow> system option \<times> error option \<times> ResponseWriter" where
  "Upgrade_part_000 w =
     (if \<not> flusher w then (None, Some (errors_New ''streaming not supported''), w)
      else
        let conn = \<lparr>errors = [], messages = [], shutdown = [], isOpen = True\<rparr>;
            w1 = Header_Set ''Content-Type'' ''text/event-stream'' w;
            w2 = Header_Set ''Cache-Control'' ''no-cache'' w1;
            w3 = Header_Set ''Connection'' ''keep-alive'' w2
        in (Some \<lparr>writer = w3, sseConnection = conn, goroutine = RUNNING,
                  heap = empty_heap, fresh = 0, errorReceivers = 0, logged = []\<rparr>,
            None, w3))"

subsection \<open>Producers in sequence, observations and example inputs\<close>

text \<open>
  Several callers of \<open>send\<close>, each with its own message, in the order in which their
  calls read \<open>isOpen\<close>.
\<close>

fun send_all :: "addr list \<Rightarrow> system \<Rightarrow> error option list \<times> system" where
  "send_all [] s = ([], s)"
| "send_all (p # ps) s =
     (case send p s of (err, s') \<Rightarrow>
        (case send_all ps s' of (errs, s'') \<Rightarrow> (err # errs, s'')))"

text \<open>
  What a producer can do with a builder, as a list of calls on it; \<open>builder_calls\<close> makes
  the calls in order.
\<close>

datatype 'v builder_call =
    call_WithId string
  | call_WithEvent string
  | call_SendBytes bytes
  | call_SendString string
  | call_SendJson 'v

fun builder_calls ::
    "('v \<Rightarrow> error + bytes) \<Rightarrow> MessageBuilder \<Rightarrow> 'v builder_call list \<Rightarrow> system \<Rightarrow> system" where
  "builder_calls Marshal mb [] s = s"
| "builder_calls Marshal mb (call_WithId i # cs) s =
     builder_calls Marshal mb cs (snd (WithId i mb s))"
| "builder_calls Marshal mb (call_WithEvent e # cs) s =
     builder_calls Marshal mb cs (snd (WithEvent e mb s))"
| "builder_calls Marshal mb (call_SendBytes d # cs) s =
     builder_calls Marshal mb cs (snd (MessageBuilder_SendBytes d mb s))"
| "builder_calls Marshal mb (call_SendString d # cs) s =
     builder_calls Marshal mb cs (snd (MessageBuilder_SendString d mb s))"
| "builder_calls Marshal mb (call_SendJson v # cs) s =
     builder_calls Marshal mb cs (snd (MessageBuilder_SendJson Marshal v mb s))"

text \<open>The calls that the writer loop makes on the transport for one message.\<close>

definition emitted :: "Message \<Rightarrow> system \<Rightarrow> call list" where
  "emitted msg s = drop (length (calls (writer s))) (calls (writer (write_message msg s)))"

text \<open>
  Example inputs: a response writer that implements \<open>http.Flusher\<close> and whose writes
  succeed, a system as \<open>Upgrade\<close> leaves it apart from the headers, the same system after
  the client has gone, a system with two senders and one \<open>Close\<close> waiting, a response
  writer that cannot flush, and two encoders of the kind \<open>json.Marshal\<close> is: one that
  rejects its argument and one that encodes a string without special characters.
\<close>

definition never_fails :: "call list \<Rightarrow> bytes \<Rightarrow> error option" where
  "never_fails history p = None"

definition recorder :: ResponseWriter where
  "recorder = \<lparr>flusher = True, header = Map.empty, calls = [], write_err = never_fails\<rparr>"

definition open_system :: system where
  "open_system =
     \<lparr>writer = recorder,
      sseConnection = \<lparr>errors = [], messages = [], shutdown = [], isOpen = True\<rparr>,
      goroutine = RUNNING, heap = empty_heap, fresh = 0, errorReceivers = 0, logged = []\<rparr>"

definition closed_system :: system where
  "closed_system =
     open_system\<lparr>sseConnection := (sseConnection open_system)\<lparr>isOpen := False\<rparr>,
                 goroutine := STOPPED\<rparr>"

definition Marshal_unsupported :: "unit \<Rightarrow> error + bytes" where
  "Marshal_unsupported v = Inl (errors_New ''json: unsupported type: chan int'')"

definition Marshal_quote :: "string \<Rightarrow> error + bytes" where
  "Marshal_quote v = Inr (''\"'' @ v @ ''\"'')"

definition queued_system :: system where
  "queued_system =
     open_system\<lparr>sseConnection := (sseConnection open_system)
       \<lparr>messages := [\<lparr>id_m = [], event = [], data = ''a''\<rparr>, \<lparr>id_m = [], event = [], data = ''b''\<rparr>],
        shutdown := [True]\<rparr>\<rparr>"

definition plain_writer :: ResponseWriter where
  "plain_writer = recorder\<lparr>flusher := False\<rparr>"

section \<open>Properties\<close>

subsection \<open>What one message puts on the wire\<close>

lemma writer_handleError [simp]: "writer (handleError err s) = writer s"
  by (simp add: handleError_def split: option.split)

lemma calls_Fprintf_handleError [simp]:
  "calls (writer (Fprintf_handleError p s)) = calls (writer s) @ [WriteCall p]"
  by (simp add: Fprintf_handleError_def Fprintf_def)

lemma written_append [simp]: "written (xs @ ys) = written xs @ written ys"
  by (induction xs rule: written.induct) simp_all

text \<open>
  C1. For a message with non-empty id and non-empty event, the writer loop makes exactly
  four calls on the transport: a write of \<open>id: <id>\n\<close>, a write of \<open>event: <event>\n\<close>,
  a write of \<open>data: <data>\n\n\<close> (the data line and the blank line), and a flush. The
  bytes written are the three field lines in that order followed by one newline.
\<close>

theorem write_message_three_lines:
  assumes "id_m msg \<noteq> []" and "event msg \<noteq> []"
  shows "calls (writer (write_message msg s)) =
           calls (writer s) @
             [WriteCall (''id: '' @ id_m msg @ ''\<newline>''),
              WriteCall (''event: '' @ event msg @ ''\<newline>''),
              WriteCall (''data: '' @ data msg @ ''\<newline>\<newline>''),
              FlushCall]
         \<and> written (calls (writer (write_message msg s))) =
             written (calls (writer s)) @
               (''id: '' @ id_m msg @ ''\<newline>'') @
               (''event: '' @ event msg @ ''\<newline>'') @
               (''data: '' @ data msg @ ''\<newline>'') @ ''\<newline>''"
  using assms by (simp add: write_message_def Let_def Flush_def)

theorem write_message_three_lines_witness:
  "written (calls (writer (write_message \<lparr>id_m = ''7'', event = ''tick'', data = ''hello''\<rparr> open_system)))
     = ''id: 7\<newline>event: tick\<newline>data: hello\<newline>\<newline>''"
  using write_message_three_lines
          [of "\<lparr>id_m = ''7'', event = ''tick'', data = ''hello''\<rparr>" open_system]
  by (simp add: open_system_def recorder_def)

lemma calls_write_message:
  "calls (writer (write_message msg s)) =
     calls (writer s) @
       (if id_m msg = [] then [] else [WriteCall (''id: '' @ id_m msg @ ''\<newline>'')]) @
       (if event msg = [] then [] else [WriteCall (''event: '' @ event msg @ ''\<newline>'')]) @
       [WriteCall (''data: '' @ data msg @ ''\<newline>\<newline>''), FlushCall]"
  by (simp add: write_message_def Let_def Flush_def)

lemma calls_write_message_part_000:
  "calls (writer (write_message_part_000 msg s)) =
     calls (writer s) @
       (if id_m msg = [] then [] else [WriteCall (''id: '' @ id_m msg @ ''\<newline>'')]) @
       (if event msg = [] then [] else [WriteCall (''event: '' @ event msg @ ''\<newline>'')]) @
       [WriteCall (''data: '' @ data msg @ ''\<newline>\<newline>''), FlushCall]"
  by (simp add: write_message_part_000_def Let_def Flush_def Fprintf_def)

lemma emitted_eq:
  "emitted msg s =
       (if id_m msg = [] then [] else [WriteCall (''id: '' @ id_m msg @ ''\<newline>'')]) @
       (if event msg = [] then [] else [WriteCall (''event: '' @ event msg @ ''\<newline>'')]) @
       [WriteCall (''data: '' @ data msg @ ''\<newline>\<newline>''), FlushCall]"
  by (simp add: emitted_def calls_write_message)

text \<open>
  C2. With an empty id the writer loop makes no write for the id field: the calls for the
  message are the event line (if the event is non-empty), the data write and the flush,
  and no write among them begins with \<open>id: \<close>. Likewise with an empty event no write
  begins with \<open>event: \<close>. For no message at all is \<open>id: \n\<close> or \<open>event: \n\<close>
  one of the writes.
\<close>

theorem write_message_omits_empty_fields:
  "calls (writer (write_message msg s)) = calls (writer s) @ emitted msg s
   \<and> (id_m msg = [] \<longrightarrow>
        emitted msg s =
          (if event msg = [] then [] else [WriteCall (''event: '' @ event msg @ ''\<newline>'')]) @
          [WriteCall (''data: '' @ data msg @ ''\<newline>\<newline>''), FlushCall]
        \<and> (\<forall>p. WriteCall p \<in> set (emitted msg s) \<longrightarrow> \<not> prefix ''id: '' p))
   \<and> (event msg = [] \<longrightarrow>
        emitted msg s =
          (if id_m msg = [] then [] else [WriteCall (''id: '' @ id_m msg @ ''\<newline>'')]) @
          [WriteCall (''data: '' @ data msg @ ''\<newline>\<newline>''), FlushCall]
        \<and> (\<forall>p. WriteCall p \<in> set (emitted msg s) \<longrightarrow> \<not> prefix ''event: '' p))
   \<and> WriteCall ''id: \<newline>'' \<notin> set (emitted msg s)
   \<and> WriteCall ''event: \<newline>'' \<notin> set (emitted msg s)"
proof (intro conjI impI)
  show "calls (writer (write_message msg s)) = calls (writer s) @ emitted msg s"
    by (simp add: emitted_eq calls_write_message)
next
  assume "id_m msg = []"
  then show "emitted msg s =
          (if event msg = [] then [] else [WriteCall (''event: '' @ event msg @ ''\<newline>'')]) @
          [WriteCall (''data: '' @ data msg @ ''\<newline>\<newline>''), FlushCall]"
    by (simp add: emitted_eq)
next
  assume "id_m msg = []"
  then show "\<forall>p. WriteCall p \<in> set (emitted msg s) \<longrightarrow> \<not> prefix ''id: '' p"
    by (auto simp: emitted_eq)
next
  assume "event msg = []"
  then show "emitted msg s =
          (if id_m msg = [] then [] else [WriteCall (''id: '' @ id_m msg @ ''\<newline>'')]) @
          [WriteCall (''data: '' @ data msg @ ''\<newline>\<newline>''), FlushCall]"
    by (simp add: emitted_eq)
next
  assume "event msg = []"
  then show "\<forall>p. WriteCall p \<in> set (emitted msg s) \<longrightarrow> \<not> prefix ''event: '' p"
    by (auto simp: emitted_eq)
next
  show "WriteCall ''id: \<newline>'' \<notin> set (emitted msg s)"
    by (auto simp: emitted_eq)
next
  show "WriteCall ''event: \<newline>'' \<notin> set (emitted msg s)"
    by (auto simp: emitted_eq)
qed

theorem write_message_omits_empty_fields_witness:
  "emitted \<lparr>id_m = [], event = [], data = ''hello''\<rparr> open_system =
     [WriteCall ''data: hello\<newline>\<newline>'', FlushCall]
   \<and> emitted \<lparr>id_m = [], event = ''tick'', data = ''hello''\<rparr> open_system =
     [WriteCall ''event: tick\<newline>'', WriteCall ''data: hello\<newline>\<newline>'', FlushCall]
   \<and> emitted \<lparr>id_m = ''7'', event = [], data = ''hello''\<rparr> open_system =
     [WriteCall ''id: 7\<newline>'', WriteCall ''data: hello\<newline>\<newline>'', FlushCall]"
  using write_message_omits_empty_fields [of "\<lparr>id_m = [], event = [], data = ''hello''\<rparr>" open_system]
        write_message_omits_empty_fields [of "\<lparr>id_m = [], event = ''tick'', data = ''hello''\<rparr>" open_system]
        write_message_omits_empty_fields [of "\<lparr>id_m = ''7'', event = [], data = ''hello''\<rparr>" open_system]
  by simp

subsection \<open>Sending\<close>

lemma send_closed:
  "\<not> isOpen (sseConnection s) \<Longrightarrow> send p s = (Some (errors_New ''connection is closed''), s)"
  by (simp add: send_def)

lemma send_all_closed:
  "\<not> isOpen (sseConnection s) \<Longrightarrow>
     send_all ps s = (replicate (length ps) (Some (errors_New ''connection is closed'')), s)"
  by (induction ps) (simp_all add: send_closed)

text \<open>
  C3. With \<open>isOpen\<close> false, \<open>send\<close> returns the error \<open>connection is closed\<close> and
  leaves the whole system as it was: nothing is offered on the message channel, so there
  is nothing the caller could wait for. The same holds for any number of callers one after
  another, and the \<open>Send*\<close> functions that reach \<open>send\<close> return that error with the
  \<open>Connection\<close> unchanged. With \<open>isOpen\<close> true, \<open>send\<close> offers the message read
  through the pointer on the message channel and returns \<open>nil\<close>.
\<close>

theorem send_closed_fails_open_hands_over:
  "(\<not> isOpen (sseConnection s) \<longrightarrow>
      send p s = (Some (errors_New ''connection is closed''), s)
      \<and> send_all ps s = (replicate (length ps) (Some (errors_New ''connection is closed'')), s)
      \<and> fst (MessageBuilder_SendBytes d mb s) = Some (errors_New ''connection is closed'')
      \<and> sseConnection (snd (MessageBuilder_SendBytes d mb s)) = sseConnection s
      \<and> fst (MessageBuilder_SendString d mb s) = Some (errors_New ''connection is closed'')
      \<and> sseConnection (snd (MessageBuilder_SendString d mb s)) = sseConnection s
      \<and> (Marshal v = Inr enc \<longrightarrow>
           fst (MessageBuilder_SendJson Marshal v mb s) = Some (errors_New ''connection is closed'')
           \<and> sseConnection (snd (MessageBuilder_SendJson Marshal v mb s)) = sseConnection s)
      \<and> fst (Connection_SendBytes d s) = Some (errors_New ''connection is closed'')
      \<and> sseConnection (snd (Connection_SendBytes d s)) = sseConnection s
      \<and> fst (Connection_SendString d s) = Some (errors_New ''connection is closed'')
      \<and> sseConnection (snd (Connection_SendString d s)) = sseConnection s
      \<and> (Marshal v = Inr enc \<longrightarrow>
           fst (Connection_SendJson Marshal v s) = Some (errors_New ''connection is closed'')
           \<and> sseConnection (snd (Connection_SendJson Marshal v s)) = sseConnection s))
   \<and> (isOpen (sseConnection s) \<longrightarrow>
      send p s =
        (None, s\<lparr>sseConnection :=
                 (sseConnection s)\<lparr>messages := messages (sseConnection s) @ [heap s p]\<rparr>\<rparr>))"
  by (simp add: send_closed send_all_closed MessageBuilder_SendBytes_def
        MessageBuilder_SendString_def MessageBuilder_SendJson_def Connection_SendBytes_def
        Connection_SendString_def Connection_SendJson_def BuildMessage_def)
     (simp add: send_def)

theorem send_closed_fails_open_hands_over_witness:
  "send 0 closed_system = (Some (errors_New ''connection is closed''), closed_system)
   \<and> send_all [0, 1, 2] closed_system =
       ([Some (errors_New ''connection is closed''), Some (errors_New ''connection is closed''),
         Some (errors_New ''connection is closed'')], closed_system)
   \<and> fst (Connection_SendJson Marshal_quote ''v'' closed_system) =
       Some (errors_New ''connection is closed'')
   \<and> fst (send 0 open_system) = None
   \<and> messages (sseConnection (snd (send 0 open_system))) = [\<lparr>id_m = [], event = [], data = []\<rparr>]"
proof -
  have c: "\<not> isOpen (sseConnection closed_system)"
    by (simp add: closed_system_def)
  have o: "isOpen (sseConnection open_system)"
    by (simp add: open_system_def)
  have m: "Marshal_quote ''v'' = Inr ''\"v\"''"
    by (simp add: Marshal_quote_def)
  note closed = send_closed_fails_open_hands_over
          [of closed_system 0 "[0, 1, 2]" "''x''" "\<lparr>message = 0\<rparr>" Marshal_quote "''v''" "''\"v\"''",
           THEN conjunct1, rule_format, OF c]
  note opened = send_closed_fails_open_hands_over
          [of open_system 0 "[]" "[]" "\<lparr>message = 0\<rparr>" Marshal_quote "''v''" "[]",
           THEN conjunct2, rule_format, OF o]
  have 1: "send 0 closed_system = (Some (errors_New ''connection is closed''), closed_system)"
    using closed by blast
  have "send_all [0, 1, 2] closed_system =
          (replicate (length [0::nat, 1, 2]) (Some (errors_New ''connection is closed'')),
           closed_system)"
    using closed by blast
  then have 2: "send_all [0, 1, 2] closed_system =
       ([Some (errors_New ''connection is closed''), Some (errors_New ''connection is closed''),
         Some (errors_New ''connection is closed'')], closed_system)"
    by (simp add: numeral_3_eq_3)
  have 3: "fst (Connection_SendJson Marshal_quote ''v'' closed_system) =
       Some (errors_New ''connection is closed'')"
    using closed m by blast
  have 4: "fst (send 0 open_system) = None"
    by (simp add: opened)
  have 5: "messages (sseConnection (snd (send 0 open_system))) =
             [\<lparr>id_m = [], event = [], data = []\<rparr>]"
    by (simp add: opened) (simp add: open_system_def empty_heap_def)
  from 1 2 3 4 5 show ?thesis by blast
qed

text \<open>
  C4. When the encoder rejects the value, \<open>SendJson\<close> of the builder returns the
  encoder's error and the system is exactly as before: no data field is set, nothing is
  offered on the message channel, the transport receives no call. \<open>SendJson\<close> of the
  connection returns the same error; the \<open>Connection\<close>, the transport and the goroutine
  are as before, and the only change is the zero \<open>Message\<close> that \<open>BuildMessage\<close>
  allocated, whose data stays empty.
\<close>

theorem SendJson_encoding_error:
  assumes "Marshal v = Inl err"
  shows "MessageBuilder_SendJson Marshal v mb s = (Some err, s)
         \<and> fst (Connection_SendJson Marshal v s) = Some err
         \<and> sseConnection (snd (Connection_SendJson Marshal v s)) = sseConnection s
         \<and> writer (snd (Connection_SendJson Marshal v s)) = writer s
         \<and> goroutine (snd (Connection_SendJson Marshal v s)) = goroutine s
         \<and> data (heap (snd (Connection_SendJson Marshal v s)) (fresh s)) = []
         \<and> (\<forall>a. a \<noteq> fresh s \<longrightarrow> heap (snd (Connection_SendJson Marshal v s)) a = heap s a)"
  using assms
  by (simp add: MessageBuilder_SendJson_def Connection_SendJson_def BuildMessage_def)

theorem SendJson_encoding_error_witness:
  "MessageBuilder_SendJson Marshal_unsupported () \<lparr>message = 0\<rparr> open_system =
     (Some (errors_New ''json: unsupported type: chan int''), open_system)
   \<and> messages (sseConnection (snd (Connection_SendJson Marshal_unsupported () open_system))) = []
   \<and> calls (writer (snd (Connection_SendJson Marshal_unsupported () open_system))) = []"
  using SendJson_encoding_error
          [of Marshal_unsupported "()" "errors_New ''json: unsupported type: chan int''"
              "\<lparr>message = 0\<rparr>" open_system]
  by (simp add: Marshal_unsupported_def open_system_def recorder_def)

subsection \<open>\<open>Upgrade\<close>\<close>

text \<open>
  C5. On a response writer that does not implement \<open>http.Flusher\<close>, \<open>Upgrade\<close> returns
  a nil \<open>Connection\<close> and the error \<open>streaming not supported\<close>, and the response writer is
  as before: no header is set and nothing is flushed. No system is built, so there are no
  channels and no writer loop. Both versions of \<open>Upgrade\<close> behave so.
\<close>

theorem Upgrade_needs_Flusher:
  assumes "\<not> flusher w"
  shows "Upgrade w = (None, Some (errors_New ''streaming not supported''), w)
         \<and> Upgrade_part_000 w = (None, Some (errors_New ''streaming not supported''), w)"
  using assms by (simp add: Upgrade_def Upgrade_part_000_def)

theorem Upgrade_needs_Flusher_witness:
  "Upgrade plain_writer = (None, Some (errors_New ''streaming not supported''), plain_writer)
   \<and> header plain_writer = Map.empty \<and> calls plain_writer = []"
  using Upgrade_needs_Flusher [of plain_writer]
  by (simp add: plain_writer_def recorder_def)

text \<open>
  C6 does not hold of every \<open>Upgrade\<close> in the repository: the one of \<open>part_000\<close>
  succeeds on a response writer that can flush and returns without having made any call
  on it, so without a flush.
\<close>

theorem Upgrade_part_000_returns_without_flush:
  "flusher recorder
   \<and> fst (snd (Upgrade_part_000 recorder)) = None
   \<and> map_option (calls \<circ> writer) (fst (Upgrade_part_000 recorder)) = Some []
   \<and> calls (snd (snd (Upgrade_part_000 recorder))) = []"
  by (simp add: Upgrade_part_000_def recorder_def Header_Set_def Let_def)

text \<open>
  C6, as amended. A successful \<open>Upgrade\<close> returns a \<open>Connection\<close> and a nil error, and
  has changed the response writer in this way only: the header map has the three entries
  \<open>Content-Type: text/event-stream\<close>, \<open>Cache-Control: no-cache\<close> and
  \<open>Connection: keep-alive\<close> set, and, for \<open>src/sse.go\<close>, one flush has been made. The
  \<open>Upgrade\<close> of \<open>part_000\<close> sets the same three entries and makes no flush.
\<close>

theorem Upgrade_sets_headers:
  assumes "flusher w"
  shows "(\<exists>s. Upgrade w = (Some s, None, writer s)
            \<and> writer s =
                w\<lparr>header := (header w)(''Content-Type'' \<mapsto> [''text/event-stream''],
                                       ''Cache-Control'' \<mapsto> [''no-cache''],
                                       ''Connection'' \<mapsto> [''keep-alive'']),
                  calls := calls w @ [FlushCall]\<rparr>)
         \<and> (\<exists>s. Upgrade_part_000 w = (Some s, None, writer s)
            \<and> writer s =
                w\<lparr>header := (header w)(''Content-Type'' \<mapsto> [''text/event-stream''],
                                       ''Cache-Control'' \<mapsto> [''no-cache''],
                                       ''Connection'' \<mapsto> [''keep-alive''])\<rparr>)"
  using assms
  by (simp add: Upgrade_def Upgrade_part_000_def Header_Set_def Flush_def Let_def)

theorem Upgrade_sets_headers_witness:
  "fst (snd (Upgrade recorder)) = None
   \<and> dom (header (snd (snd (Upgrade recorder)))) = {''Content-Type'', ''Cache-Control'', ''Connection''}
   \<and> header (snd (snd (Upgrade recorder))) ''Content-Type'' = Some [''text/event-stream'']
   \<and> header (snd (snd (Upgrade recorder))) ''Cache-Control'' = Some [''no-cache'']
   \<and> header (snd (snd (Upgrade recorder))) ''Connection'' = Some [''keep-alive'']
   \<and> calls (snd (snd (Upgrade recorder))) = [FlushCall]"
proof -
  have f: "flusher recorder" by (simp add: recorder_def)
  from Upgrade_sets_headers [OF f] obtain s where
    u: "Upgrade recorder = (Some s, None, writer s)" and
    w: "writer s =
          recorder\<lparr>header := (header recorder)(''Content-Type'' \<mapsto> [''text/event-stream''],
                                       ''Cache-Control'' \<mapsto> [''no-cache''],
                                       ''Connection'' \<mapsto> [''keep-alive'']),
                  calls := calls recorder @ [FlushCall]\<rparr>"
    by blast
  show ?thesis
    by (simp add: u w) (auto simp: recorder_def)
qed

subsection \<open>The life of the writer loop\<close>

lemma goroutine_handleError [simp]: "goroutine (handleError err s) = goroutine s"
  by (simp add: handleError_def split: option.split)

lemma isOpen_handleError [simp]:
  "isOpen (sseConnection (handleError err s)) = isOpen (sseConnection s)"
  by (simp add: handleError_def split: option.split)

lemma goroutine_Fprintf_handleError [simp]:
  "goroutine (Fprintf_handleError p s) = goroutine s"
  by (simp add: Fprintf_handleError_def split: prod.split)

lemma isOpen_Fprintf_handleError [simp]:
  "isOpen (sseConnection (Fprintf_handleError p s)) = isOpen (sseConnection s)"
  by (simp add: Fprintf_handleError_def split: prod.split)

lemma goroutine_write_message [simp]: "goroutine (write_message msg s) = goroutine s"
  by (simp add: write_message_def Let_def)

lemma isOpen_write_message [simp]:
  "isOpen (sseConnection (write_message msg s)) = isOpen (sseConnection s)"
  by (simp add: write_message_def Let_def)

lemma writer_loop_without_Done:
  "ctx_Done \<notin> set cs \<Longrightarrow>
     goroutine (writer_loop cs s) = goroutine s
     \<and> isOpen (sseConnection (writer_loop cs s)) = isOpen (sseConnection s)"
  by (induction cs s rule: writer_loop.induct) (simp_all split: list.split)

lemma writer_loop_append:
  "ctx_Done \<notin> set pre \<Longrightarrow> writer_loop (pre @ cs) s = writer_loop cs (writer_loop pre s)"
  by (induction pre s rule: writer_loop.induct) (simp_all split: list.split)

lemma writer_loop_with_Done:
  "ctx_Done \<in> set cs \<Longrightarrow>
     goroutine (writer_loop cs s) = STOPPED \<and> \<not> isOpen (sseConnection (writer_loop cs s))"
  by (induction cs s rule: writer_loop.induct) (simp_all split: list.split)

lemma Close_taken:
  assumes "shutdown (sseConnection s) = []"
  shows "writer_loop (recv_shutdown # cs) (Close s) = writer_loop cs s"
proof -
  have c: "(sseConnection s)\<lparr>shutdown := []\<rparr> = sseConnection s"
    using assms by (intro Connection.equality) simp_all
  have "writer_loop (recv_shutdown # cs) (Close s) =
          writer_loop cs (s\<lparr>sseConnection := (sseConnection s)\<lparr>shutdown := []\<rparr>\<rparr>)"
    using assms by (simp add: Close_def)
  also have "\<dots> = writer_loop cs (s\<lparr>sseConnection := sseConnection s\<rparr>)"
    by (simp only: c)
  also have "\<dots> = writer_loop cs s"
    by simp
  finally show ?thesis .
qed

text \<open>
  C7. Taking a value from the shutdown channel leaves the goroutine's state, \<open>isOpen\<close>
  and the transport as they were; a \<open>Close\<close> that the loop takes leaves the system as it
  was before the \<open>Close\<close>. Over a schedule without \<open>ctx_Done\<close> the goroutine's state
  and \<open>isOpen\<close> do not change. A schedule with \<open>ctx_Done\<close> leaves the goroutine
  \<open>STOPPED\<close> and \<open>isOpen\<close> false; the system is then what the loop had reached just
  before the first \<open>ctx_Done\<close>, with those two changes, whatever follows in the schedule:
  nothing more is written.
\<close>

theorem writer_loop_shutdown_noop_Done_terminal:
  "goroutine (writer_loop [recv_shutdown] s) = goroutine s
   \<and> isOpen (sseConnection (writer_loop [recv_shutdown] s)) = isOpen (sseConnection s)
   \<and> writer (writer_loop [recv_shutdown] s) = writer s
   \<and> (shutdown (sseConnection s) = [] \<longrightarrow>
        writer_loop (recv_shutdown # cs) (Close s) = writer_loop cs s)
   \<and> (ctx_Done \<notin> set cs \<longrightarrow>
        goroutine (writer_loop cs s) = goroutine s
        \<and> isOpen (sseConnection (writer_loop cs s)) = isOpen (sseConnection s))
   \<and> (ctx_Done \<in> set cs \<longrightarrow>
        goroutine (writer_loop cs s) = STOPPED \<and> \<not> isOpen (sseConnection (writer_loop cs s)))
   \<and> (ctx_Done \<notin> set pre \<longrightarrow>
        writer_loop (pre @ ctx_Done # post) s =
          (writer_loop pre s)\<lparr>sseConnection := (sseConnection (writer_loop pre s))\<lparr>isOpen := False\<rparr>,
                              goroutine := STOPPED\<rparr>)"
proof (intro conjI impI)
  show "goroutine (writer_loop [recv_shutdown] s) = goroutine s"
    by (simp split: list.split)
  show "isOpen (sseConnection (writer_loop [recv_shutdown] s)) = isOpen (sseConnection s)"
    by (simp split: list.split)
  show "writer (writer_loop [recv_shutdown] s) = writer s"
    by (simp split: list.split)
next
  assume "shutdown (sseConnection s) = []"
  then show "writer_loop (recv_shutdown # cs) (Close s) = writer_loop cs s"
    by (rule Close_taken)
next
  assume "ctx_Done \<notin> set cs"
  then show "goroutine (writer_loop cs s) = goroutine s"
    and "isOpen (sseConnection (writer_loop cs s)) = isOpen (sseConnection s)"
    by (simp_all add: writer_loop_without_Done)
next
  assume "ctx_Done \<in> set cs"
  then show "goroutine (writer_loop cs s) = STOPPED"
    and "\<not> isOpen (sseConnection (writer_loop cs s))"
    by (simp_all add: writer_loop_with_Done)
next
  assume "ctx_Done \<notin> set pre"
  then show "writer_loop (pre @ ctx_Done # post) s =
          (writer_loop pre s)\<lparr>sseConnection := (sseConnection (writer_loop pre s))\<lparr>isOpen := False\<rparr>,
                              goroutine := STOPPED\<rparr>"
    by (simp add: writer_loop_append)
qed

lemma queues_handleError [simp]:
  "messages (sseConnection (handleError err s)) = messages (sseConnection s)"
  "shutdown (sseConnection (handleError err s)) = shutdown (sseConnection s)"
  by (simp_all add: handleError_def split: option.split)

lemma queues_Fprintf_handleError [simp]:
  "messages (sseConnection (Fprintf_handleError p s)) = messages (sseConnection s)"
  "shutdown (sseConnection (Fprintf_handleError p s)) = shutdown (sseConnection s)"
  by (simp_all add: Fprintf_handleError_def split: prod.split)

lemma queues_write_message [simp]:
  "messages (sseConnection (write_message msg s)) = messages (sseConnection s)"
  "shutdown (sseConnection (write_message msg s)) = shutdown (sseConnection s)"
  by (simp_all add: write_message_def Let_def)

theorem writer_loop_shutdown_noop_Done_terminal_witness:
  "goroutine (writer_loop [recv_message, recv_shutdown] queued_system) = RUNNING
   \<and> isOpen (sseConnection (writer_loop [recv_message, recv_shutdown] queued_system))
   \<and> goroutine (writer_loop [recv_message, recv_shutdown, ctx_Done, recv_message] queued_system) = STOPPED
   \<and> \<not> isOpen (sseConnection
          (writer_loop [recv_message, recv_shutdown, ctx_Done, recv_message] queued_system))
   \<and> calls (writer (writer_loop [recv_message, recv_shutdown, ctx_Done, recv_message] queued_system)) =
       [WriteCall ''data: a\<newline>\<newline>'', FlushCall]
   \<and> writer_loop [recv_shutdown] (Close open_system) = open_system"
proof -
  let ?pre = "[recv_message, recv_shutdown]"
  note t = writer_loop_shutdown_noop_Done_terminal
             [where s = queued_system and cs = ?pre and pre = ?pre and post = "[recv_message]"]
  note u = writer_loop_shutdown_noop_Done_terminal
             [where s = open_system and cs = "[]" and pre = "[]" and post = "[]"]
  note v = writer_loop_shutdown_noop_Done_terminal
             [where s = queued_system and cs = "?pre @ ctx_Done # [recv_message]" and pre = ?pre
                and post = "[recv_message]"]
  have n: "ctx_Done \<notin> set ?pre" by simp
  have d: "ctx_Done \<in> set (?pre @ ctx_Done # [recv_message])" by simp
  have e: "shutdown (sseConnection open_system) = []" by (simp add: open_system_def)
  have q: "goroutine queued_system = RUNNING" "isOpen (sseConnection queued_system)"
    by (simp_all add: queued_system_def open_system_def)
  have 1: "goroutine (writer_loop ?pre queued_system) = RUNNING
           \<and> isOpen (sseConnection (writer_loop ?pre queued_system))"
    using t n q by simp
  have 2: "goroutine (writer_loop (?pre @ ctx_Done # [recv_message]) queued_system) = STOPPED
           \<and> \<not> isOpen (sseConnection (writer_loop (?pre @ ctx_Done # [recv_message]) queued_system))"
    using v d by blast
  have eq: "writer_loop (?pre @ ctx_Done # [recv_message]) queued_system =
          (writer_loop ?pre queued_system)
            \<lparr>sseConnection := (sseConnection (writer_loop ?pre queued_system))\<lparr>isOpen := False\<rparr>,
             goroutine := STOPPED\<rparr>"
    using t n by blast
  have 3: "calls (writer (writer_loop (?pre @ ctx_Done # [recv_message]) queued_system)) =
                  [WriteCall ''data: a\<newline>\<newline>'', FlushCall]"
    by (subst eq) (simp add: queued_system_def open_system_def recorder_def calls_write_message)
  have 4: "writer_loop [recv_shutdown] (Close open_system) = open_system"
    using u e by simp
  from 1 2 3 4 show ?thesis by simp
qed

subsection \<open>The message handed over is a copy\<close>

lemma messages_WithId [simp]:
  "sseConnection (snd (WithId i mb s)) = sseConnection s"
  by (simp add: WithId_def)

lemma messages_WithEvent [simp]:
  "sseConnection (snd (WithEvent e mb s)) = sseConnection s"
  by (simp add: WithEvent_def)

lemma prefix_messages_send:
  "prefix xs (messages (sseConnection s)) \<Longrightarrow>
     prefix xs (messages (sseConnection (snd (send p (s\<lparr>heap := h\<rparr>)))))"
  by (simp add: send_def)

lemma prefix_messages_builder_calls:
  "prefix xs (messages (sseConnection s)) \<Longrightarrow>
     prefix xs (messages (sseConnection (builder_calls Marshal mb cs s)))"
proof (induction Marshal mb cs s rule: builder_calls.induct)
  case (1 Marshal mb s)
  then show ?case by simp
next
  case (2 Marshal mb i cs s)
  then show ?case by simp
next
  case (3 Marshal mb e cs s)
  then show ?case by simp
next
  case (4 Marshal mb d cs s)
  then show ?case
    by (simp add: MessageBuilder_SendBytes_def prefix_messages_send)
next
  case (5 Marshal mb d cs s)
  then show ?case
    by (simp add: MessageBuilder_SendString_def prefix_messages_send)
next
  case (6 Marshal mb v cs s)
  have "prefix xs (messages (sseConnection (snd (MessageBuilder_SendJson Marshal v mb s))))"
    using "6.prems"
    by (simp add: MessageBuilder_SendJson_def prefix_messages_send split: sum.split)
  then show ?case
    using "6.IH" by simp
qed

lemma writer_send [simp]: "writer (snd (send p s)) = writer s"
  by (simp add: send_def)

lemma writer_builder_calls [simp]:
  "writer (builder_calls Marshal mb cs s) = writer s"
  by (induction Marshal mb cs s rule: builder_calls.induct)
     (simp_all add: WithId_def WithEvent_def MessageBuilder_SendBytes_def
        MessageBuilder_SendString_def MessageBuilder_SendJson_def split: sum.split)

lemma writer_loop_recv_message_calls:
  "messages (sseConnection t) = m # rest \<Longrightarrow>
     calls (writer (writer_loop [recv_message] t)) = calls (writer t) @ emitted m t"
  by (simp add: calls_write_message emitted_eq)

text \<open>
  C8. A successful \<open>send\<close> puts on the message channel the value that the builder's
  pointer refers to at that moment. Whatever calls are made on the builder afterwards
  (\<open>WithId\<close>, \<open>WithEvent\<close>, further \<open>Send*\<close>), the channel still begins with the
  values it held, that copy included; and if the channel was empty before, what the writer
  loop then receives and writes is the message as it was at the handoff.
\<close>

theorem send_hands_over_a_copy:
  assumes "isOpen (sseConnection s)"
  shows "fst (send (message mb) s) = None
         \<and> messages (sseConnection (snd (send (message mb) s))) =
             messages (sseConnection s) @ [heap s (message mb)]
         \<and> prefix (messages (sseConnection s) @ [heap s (message mb)])
             (messages (sseConnection (builder_calls Marshal mb cs (snd (send (message mb) s)))))
         \<and> (messages (sseConnection s) = [] \<longrightarrow>
              calls (writer (writer_loop [recv_message]
                       (builder_calls Marshal mb cs (snd (send (message mb) s))))) =
                calls (writer s) @ emitted (heap s (message mb)) s)"
proof -
  let ?s' = "snd (send (message mb) s)"
  let ?t = "builder_calls Marshal mb cs ?s'"
  have 1: "fst (send (message mb) s) = None"
    using assms by (simp add: send_def)
  have 2: "messages (sseConnection ?s') = messages (sseConnection s) @ [heap s (message mb)]"
    using assms by (simp add: send_def)
  have 3: "prefix (messages (sseConnection s) @ [heap s (message mb)]) (messages (sseConnection ?t))"
    by (rule prefix_messages_builder_calls) (simp add: 2)
  have 4: "calls (writer (writer_loop [recv_message] ?t)) =
             calls (writer s) @ emitted (heap s (message mb)) s"
    if "messages (sseConnection s) = []"
  proof -
    from 3 that obtain rest where "messages (sseConnection ?t) = heap s (message mb) # rest"
      by (auto simp: prefix_def)
    then have "calls (writer (writer_loop [recv_message] ?t)) =
                 calls (writer ?t) @ emitted (heap s (message mb)) ?t"
      by (rule writer_loop_recv_message_calls)
    then show ?thesis
      by (simp add: emitted_eq)
  qed
  from 1 2 3 4 show ?thesis by blast
qed

theorem send_hands_over_a_copy_witness:
  "messages (sseConnection
      (builder_calls Marshal_quote \<lparr>message = 0\<rparr> [call_WithId ''2'', call_SendString ''x'']
         (snd (send 0 open_system)))) =
     [\<lparr>id_m = [], event = [], data = []\<rparr>, \<lparr>id_m = ''2'', event = [], data = ''x''\<rparr>]
   \<and> calls (writer (writer_loop [recv_message]
        (builder_calls Marshal_quote \<lparr>message = 0\<rparr> [call_WithId ''2'', call_SendString ''x'']
           (snd (send 0 open_system))))) =
     [WriteCall ''data: \<newline>\<newline>'', FlushCall]"
proof -
  have o: "isOpen (sseConnection open_system)" "messages (sseConnection open_system) = []"
    by (simp_all add: open_system_def)
  note t = send_hands_over_a_copy
             [of open_system "\<lparr>message = 0\<rparr>" Marshal_quote "[call_WithId ''2'', call_SendString ''x'']",
              OF o(1)]
  have 1: "messages (sseConnection
      (builder_calls Marshal_quote \<lparr>message = 0\<rparr> [call_WithId ''2'', call_SendString ''x'']
         (snd (send 0 open_system)))) =
     [\<lparr>id_m = [], event = [], data = []\<rparr>, \<lparr>id_m = ''2'', event = [], data = ''x''\<rparr>]"
    by (simp add: send_def WithId_def MessageBuilder_SendString_def open_system_def empty_heap_def)
  have 2: "calls (writer (writer_loop [recv_message]
        (builder_calls Marshal_quote \<lparr>message = 0\<rparr> [call_WithId ''2'', call_SendString ''x'']
           (snd (send 0 open_system))))) =
     calls (writer open_system) @ emitted (heap open_system 0) open_system"
    using t o(2) by simp
  have 3: "calls (writer open_system) @ emitted (heap open_system 0) open_system =
             [WriteCall ''data: \<newline>\<newline>'', FlushCall]"
    by (simp add: emitted_eq) (simp add: open_system_def recorder_def empty_heap_def)
  from 1 2 3 show ?thesis by simp
qed

subsection \<open>The two versions of the writer loop\<close>

lemma writer_Fprintf_handleError:
  "writer (Fprintf_handleError p s) = snd (Fprintf p (writer s))"
  by (simp add: Fprintf_handleError_def split: prod.split)

lemma writer_write_message:
  "writer (write_message msg s) = writer (write_message_part_000 msg s)"
  by (simp add: write_message_def write_message_part_000_def Let_def writer_Fprintf_handleError)

lemma queues_write_message_part_000 [simp]:
  "sseConnection (write_message_part_000 msg s) = sseConnection s"
  by (simp add: write_message_part_000_def Let_def)

lemma writer_write_message_cong:
  "writer s = writer t \<Longrightarrow> writer (write_message msg s) = writer (write_message_part_000 msg t)"
  by (simp add: write_message_def write_message_part_000_def Let_def writer_Fprintf_handleError)

lemma writer_loops_agree:
  "writer s = writer t \<Longrightarrow> messages (sseConnection s) = messages (sseConnection t) \<Longrightarrow>
   shutdown (sseConnection s) = shutdown (sseConnection t) \<Longrightarrow>
     writer (writer_loop cs s) = writer (writer_loop_part_000 cs t)"
proof (induction cs arbitrary: s t)
  case Nil
  then show ?case by simp
next
  case (Cons c cs)
  show ?case
  proof (cases c)
    case recv_message
    show ?thesis
    proof (cases "messages (sseConnection t)")
      case Nil
      then show ?thesis using Cons recv_message by simp
    next
      case (Cons m rest)
      let ?s = "write_message m (s\<lparr>sseConnection := (sseConnection s)\<lparr>messages := rest\<rparr>\<rparr>)"
      let ?t = "write_message_part_000 m (t\<lparr>sseConnection := (sseConnection t)\<lparr>messages := rest\<rparr>\<rparr>)"
      have "writer ?s = writer ?t"
        by (rule writer_write_message_cong) (simp add: Cons.prems)
      moreover have "messages (sseConnection ?s) = messages (sseConnection ?t)"
        by simp
      moreover have "shutdown (sseConnection ?s) = shutdown (sseConnection ?t)"
        using Cons.prems by simp
      ultimately have "writer (writer_loop cs ?s) = writer (writer_loop_part_000 cs ?t)"
        by (rule Cons.IH)
      then show ?thesis
        using Cons.prems recv_message \<open>messages (sseConnection t) = m # rest\<close> by simp
    qed
  next
    case recv_shutdown
    show ?thesis
    proof (cases "shutdown (sseConnection t)")
      case Nil
      then show ?thesis using Cons recv_shutdown by simp
    next
      case (Cons b rest)
      let ?s = "s\<lparr>sseConnection := (sseConnection s)\<lparr>shutdown := rest\<rparr>\<rparr>"
      let ?t = "t\<lparr>sseConnection := (sseConnection t)\<lparr>shutdown := rest\<rparr>\<rparr>"
      have "writer (writer_loop cs ?s) = writer (writer_loop_part_000 cs ?t)"
        by (rule Cons.IH) (simp_all add: Cons.prems)
      then show ?thesis
        using Cons.prems recv_shutdown \<open>shutdown (sseConnection t) = b # rest\<close> by simp
    qed
  next
    case ctx_Done
    then show ?thesis using Cons.prems by simp
  qed
qed

text \<open>
  C10. For every message and every system, handling the message leaves the response writer
  in the same state in \<open>src/sse.go\<close> and in \<open>part_000\<close>: the same calls with the same
  bytes in the same order. The same holds for the two writer loops over any schedule.
\<close>

theorem write_message_same_bytes_as_part_000:
  "writer (write_message msg s) = writer (write_message_part_000 msg s)
   \<and> written (calls (writer (write_message msg s))) =
       written (calls (writer (write_message_part_000 msg s)))
   \<and> writer (writer_loop cs s) = writer (writer_loop_part_000 cs s)"
  by (simp add: writer_write_message writer_loops_agree)

text \<open>
  C9. In both versions the data is passed to the transport as it is, in one write of
  \<open>data: \<close>, the data and two newlines. A newline in the data is written unchanged, and if
  the data contains two newlines in a row, the bytes written up to and including them are a
  proper prefix of the bytes of the message: a blank line ends the event before its end.
\<close>

theorem data_written_verbatim:
  "\<exists>fields.
     calls (writer (write_message msg s)) =
       calls (writer s) @ fields @ [WriteCall (''data: '' @ data msg @ ''\<newline>\<newline>''), FlushCall]
     \<and> calls (writer (write_message_part_000 msg s)) =
       calls (writer s) @ fields @ [WriteCall (''data: '' @ data msg @ ''\<newline>\<newline>''), FlushCall]
     \<and> (\<forall>a b. data msg = a @ ''\<newline>'' @ b \<longrightarrow>
          written (calls (writer (write_message msg s))) =
            written (calls (writer s)) @ written fields @
              ''data: '' @ a @ ''\<newline>'' @ b @ ''\<newline>\<newline>'')
     \<and> (\<forall>a b. data msg = a @ ''\<newline>\<newline>'' @ b \<longrightarrow>
          strict_prefix
            (written (calls (writer s)) @ written fields @ ''data: '' @ a @ ''\<newline>\<newline>'')
            (written (calls (writer (write_message msg s)))))"
proof -
  let ?fields = "(if id_m msg = [] then [] else [WriteCall (''id: '' @ id_m msg @ ''\<newline>'')]) @
       (if event msg = [] then [] else [WriteCall (''event: '' @ event msg @ ''\<newline>'')])"
  have 1: "calls (writer (write_message msg s)) =
       calls (writer s) @ ?fields @ [WriteCall (''data: '' @ data msg @ ''\<newline>\<newline>''), FlushCall]"
    by (simp add: calls_write_message)
  have 2: "calls (writer (write_message_part_000 msg s)) =
       calls (writer s) @ ?fields @ [WriteCall (''data: '' @ data msg @ ''\<newline>\<newline>''), FlushCall]"
    by (simp add: calls_write_message_part_000)
  have 3: "written (calls (writer (write_message msg s))) =
            written (calls (writer s)) @ written ?fields @
              ''data: '' @ a @ ''\<newline>'' @ b @ ''\<newline>\<newline>''"
    if "data msg = a @ ''\<newline>'' @ b" for a b
    using that by (simp add: 1)
  have 4: "strict_prefix
            (written (calls (writer s)) @ written ?fields @ ''data: '' @ a @ ''\<newline>\<newline>'')
            (written (calls (writer (write_message msg s))))"
    if "data msg = a @ ''\<newline>\<newline>'' @ b" for a b
    using that by (simp add: 1 strict_prefix_def)
  from 1 2 3 4 show ?thesis
    by (intro exI [of _ ?fields]) blast
qed

theorem data_written_verbatim_witness:
  "written (calls (writer (write_message \<lparr>id_m = [], event = [], data = ''a\<newline>\<newline>b''\<rparr> open_system))) =
     ''data: a\<newline>\<newline>b\<newline>\<newline>''
   \<and> strict_prefix ''data: a\<newline>\<newline>''
       (written (calls (writer
          (write_message \<lparr>id_m = [], event = [], data = ''a\<newline>\<newline>b''\<rparr> open_system))))"
proof -
  let ?m = "\<lparr>id_m = [], event = [], data = ''a\<newline>\<newline>b''\<rparr>"
  have c: "calls (writer (write_message ?m open_system)) =
             [WriteCall ''data: a\<newline>\<newline>b\<newline>\<newline>'', FlushCall]"
    by (simp add: calls_write_message open_system_def recorder_def)
  from data_written_verbatim [of ?m open_system] obtain fields where
    f: "calls (writer (write_message ?m open_system)) =
          calls (writer open_system) @ fields @
            [WriteCall (''data: '' @ data ?m @ ''\<newline>\<newline>''), FlushCall]"
    and p: "\<forall>a b. data ?m = a @ ''\<newline>\<newline>'' @ b \<longrightarrow>
          strict_prefix
            (written (calls (writer open_system)) @ written fields @ ''data: '' @ a @ ''\<newline>\<newline>'')
            (written (calls (writer (write_message ?m open_system))))"
    by blast
  have e: "calls (writer open_system) = []"
    by (simp add: open_system_def recorder_def)
  from f c e have "fields = []"
    by simp
  moreover have "data ?m = ''a'' @ ''\<newline>\<newline>'' @ ''b''"
    by simp
  ultimately have "strict_prefix (''data: '' @ ''a'' @ ''\<newline>\<newline>'')
       (written (calls (writer (write_message ?m open_system))))"
    using p e by (metis append_Nil written.simps(1))
  then show ?thesis
    by (simp add: c)
qed

end
